theory Spec2Isabelle
  imports Main "HOL-Library.AList" "HOL-Library.Sublist"
begin

section \<open>Exceptions\<close>

text \<open>
  A Python exception is its class and its message. Only the classes the code and its
  claims mention are named; any other class (the ones a user's hook may raise) is
  \<open>UserException\<close> with its class name. \<open>isinstance_LookupError\<close> is Python's
  \<^verbatim>\<open>isinstance(e, LookupError)\<close>: LookupError and its two built-in subclasses.
\<close>

datatype exn_class =
    ValueError | TypeError | LookupError | KeyError | IndexError
  | AttributeError | FileNotFoundError | UserException string

datatype exn = Exn (exn_cls: exn_class) (exn_msg: string)

fun isinstance_LookupError :: "exn \<Rightarrow> bool" where
  "isinstance_LookupError (Exn c m) = (c = LookupError \<or> c = KeyError \<or> c = IndexError)"

section \<open>Paths and the filesystem\<close>

text \<open>
  A path is absolute or relative, with its components in order (pathlib's \<open>parts\<close>
  without the root). \<open>joinpath\<close> is pathlib's \<^verbatim>\<open>/\<close>: an absolute right operand
  replaces the left one.
\<close>

datatype path = Abs "string list" | Rel "string list"

fun joinpath :: "path \<Rightarrow> path \<Rightarrow> path" where
  "joinpath p (Abs ys) = Abs ys"
| "joinpath (Abs xs) (Rel ys) = Abs (xs @ ys)"
| "joinpath (Rel xs) (Rel ys) = Rel (xs @ ys)"

text \<open>
  The filesystem is the set of the absolute paths that exist and the current working
  directory; a relative path is looked up under the working directory.
\<close>

record filesystem =
  entries :: "string list set"
  cwd :: "string list"

fun path_exists :: "filesystem \<Rightarrow> path \<Rightarrow> bool" where
  "path_exists fsys (Abs xs) = (xs \<in> entries fsys)"
| "path_exists fsys (Rel xs) = (cwd fsys @ xs \<in> entries fsys)"

text \<open>The ancestors of a directory, nearest first, the root (\<open>[]\<close>) last.\<close>

definition parents :: "string list \<Rightarrow> string list list" where
  "parents d = map (\<lambda>n. take n d) (rev [0..<length d])"

fun path_str :: "path \<Rightarrow> string" where
  "path_str (Abs xs) = (if xs = [] then ''/'' else concat (map (\<lambda>x. CHR ''/'' # x) xs))"
| "path_str (Rel []) = ''.''"
| "path_str (Rel (x # xs)) = x @ concat (map (\<lambda>y. CHR ''/'' # y) xs)"

section \<open>template.py: the template resolver\<close>

text \<open>
  Modelled from the spec: the join rule of steps 2 and 3 of section 4.1 of the
  specification, for \<open>get_template_file\<close> of \<^verbatim>\<open>textconf/template.py\<close>, which is
  not among the source files: \<open>base/directory/reference\<close> when a directory is given,
  \<open>base/reference\<close> otherwise.
\<close>

fun candidate :: "string list \<Rightarrow> path option \<Rightarrow> path \<Rightarrow> path" where
  "candidate base None reference = joinpath (Abs base) reference"
| "candidate base (Some d) reference = joinpath (joinpath (Abs base) d) reference"

text \<open>
  Modelled from the spec: \<open>get_template_file\<close> of \<^verbatim>\<open>textconf/template.py\<close>, which
  is not among the source files; the definition follows section 4.1 of the specification
  step by step. The owner class enters through the directory of its source file only
  (\<open>class_source_dir\<close>, absolute).
  \<^item> Step 1: the reference itself, when it exists (absolute, or relative to the working
    directory), is returned as it is; with a directory, the reference joined with it
    under the working directory is returned as the absolute path of that file (the
    repository's test \<^verbatim>\<open>test_existing_file_in_dir\<close> compares the result with the
    absolute path).
  \<^item> Step 2: the join rule at the directory of the class's source file.
  \<^item> Step 3: the join rule at its ancestors, nearest first, up to the root.
  \<^item> Step 4: a FileNotFoundError that names the reference.
\<close>

definition get_template_file ::
  "filesystem \<Rightarrow> string list \<Rightarrow> path \<Rightarrow> path option \<Rightarrow> exn + path" where
  "get_template_file fsys class_source_dir reference directory =
     (if path_exists fsys reference then Inr reference
      else if directory \<noteq> None \<and> path_exists fsys (candidate (cwd fsys) directory reference)
        then Inr (candidate (cwd fsys) directory reference)
      else if path_exists fsys (candidate class_source_dir directory reference)
        then Inr (candidate class_source_dir directory reference)
      else (case List.find (\<lambda>a. path_exists fsys (candidate a directory reference))
                   (parents class_source_dir) of
              Some a \<Rightarrow> Inr (candidate a directory reference)
            | None \<Rightarrow> Inl (Exn FileNotFoundError (path_str reference))))"

section \<open>config.py: BaseConfig\<close>

text \<open>
  \<open>BaseConfig\<close> is a dataclass with the one field \<^verbatim>\<open>_template_\<close> (here \<open>cfg_template\<close>); a subclass
  extends the record. A Python dict is an association list in insertion order with one
  entry for each key.
\<close>

record BaseConfig =
  cfg_template :: path

type_synonym 'v dict = "(string \<times> 'v) list"

text \<open>
  The state of a call: the configuration object (hooks mutate it in place); the world,
  which is everything outside the configuration that a callable can read or change
  (module-level variables, the filesystem); the store of dict objects by address with the
  next free address; and the log of the calls that \<open>render\<close> has made, in order.
\<close>

datatype 'v call =
    CallUpdate
  | CallIterTemplateMethods
  | CallMethod string
  | CallGetTemplateFile path
  | CallRender path "'v dict"

record ('c, 'g, 'v) pystate =
  config :: 'c
  world :: 'g
  dicts :: "nat \<Rightarrow> 'v dict"
  next_addr :: nat
  calls :: "'v call list"

text \<open>
  What \<open>render\<close> calls, for one class \<open>cls\<close>. A callable receives the
  configuration and the world, and returns its outcome (a value, or \<open>Inl\<close> the
  exception it raised) together with the configuration and the world as it left them.
  \<^item> \<open>update\<close> is \<^verbatim>\<open>cls.update\<close>;
  \<^item> \<open>template_methods\<close> is the sequence \<^verbatim>\<open>iter_template_methods(cls)\<close> yields;
  \<^item> \<open>template_file\<close> is \<^verbatim>\<open>get_template_file(cls, ref)\<close> as a function of the
    world (it reads the filesystem) and the reference;
  \<^item> \<open>renderer\<close> is \<^verbatim>\<open>render(template_file, cfg, *args, **params)\<close> of
    \<^verbatim>\<open>textconf/render.py\<close>.
  \<^verbatim>\<open>textconf/template.py\<close> and \<^verbatim>\<open>textconf/render.py\<close> are not among the source
  files, so the three functions that \<open>render\<close> imports from them are parameters: what
  is proved of \<open>render\<close> holds whatever they are.
\<close>

record ('c, 'g, 'v, 'x) config_class =
  update :: "'c \<Rightarrow> 'g \<Rightarrow> (exn + unit) \<times> 'c \<times> 'g"
  template_methods :: "(string \<times> ('c \<Rightarrow> 'g \<Rightarrow> (exn + 'v) \<times> 'c \<times> 'g)) list"
  template_file :: "'g \<Rightarrow> path \<Rightarrow> exn + path"
  renderer :: "path \<Rightarrow> 'c \<Rightarrow> 'x \<Rightarrow> 'v dict \<Rightarrow> 'g \<Rightarrow> (exn + string) \<times> 'c \<times> 'g"

text \<open>\<^verbatim>\<open>params = kwargs.copy()\<close>: a new dict object with the entries of the old one.\<close>

definition dict_copy ::
  "nat \<Rightarrow> ('c, 'g, 'v) pystate \<Rightarrow> nat \<times> ('c, 'g, 'v) pystate" where
  "dict_copy a s =
     (next_addr s,
      s\<lparr>dicts := (dicts s)(next_addr s := dicts s a), next_addr := Suc (next_addr s)\<rparr>)"

text \<open>
  \<^verbatim>\<open>
  for name, obj in iter_template_methods(cls):
      if name not in params:
          params[name] = obj(cfg)
  \<close>
  \<open>params\<close> is the address of the dict. The right-hand side is evaluated first: when
  the method raises, nothing is stored and the loop ends with the exception.
\<close>

fun template_loop ::
  "(string \<times> ('c \<Rightarrow> 'g \<Rightarrow> (exn + 'v) \<times> 'c \<times> 'g)) list \<Rightarrow> nat
     \<Rightarrow> ('c, 'g, 'v) pystate \<Rightarrow> (exn + unit) \<times> ('c, 'g, 'v) pystate" where
  "template_loop [] params s = (Inr (), s)"
| "template_loop ((name, obj) # rest) params s =
     (if map_of (dicts s params) name = None then
        (case obj (config s) (world s) of
           (Inl e, c, g) \<Rightarrow>
             (Inl e, s\<lparr>config := c, world := g, calls := calls s @ [CallMethod name]\<rparr>)
         | (Inr v, c, g) \<Rightarrow>
             template_loop rest params
               (s\<lparr>config := c, world := g,
                  dicts := (dicts s)(params := AList.update name v (dicts s params)),
                  calls := calls s @ [CallMethod name]\<rparr>))
      else template_loop rest params s)"

text \<open>
  \<^verbatim>\<open>
  def render(cls, cfg, *args, **kwargs):
      cls.update(cfg)
      params = kwargs.copy()
      for name, obj in iter_template_methods(cls):
          if name not in params:
              params[name] = obj(cfg)
      template_file = get_template_file(cls, cfg._template_)
      return render(template_file, cfg, *args, **params)
  \<close>
  \<open>kwargs\<close> is the address of the dict of keyword arguments.
\<close>

definition BaseConfig_render ::
  "('m BaseConfig_scheme, 'g, 'v, 'x) config_class \<Rightarrow> 'x \<Rightarrow> nat
     \<Rightarrow> ('m BaseConfig_scheme, 'g, 'v) pystate
     \<Rightarrow> (exn + string) \<times> ('m BaseConfig_scheme, 'g, 'v) pystate" where
  "BaseConfig_render cls args kwargs s =
     (case update cls (config s) (world s) of
        (Inl e, c1, g1) \<Rightarrow>
          (Inl e, s\<lparr>config := c1, world := g1, calls := calls s @ [CallUpdate]\<rparr>)
      | (Inr u, c1, g1) \<Rightarrow>
          (case dict_copy kwargs
                  (s\<lparr>config := c1, world := g1, calls := calls s @ [CallUpdate]\<rparr>) of
             (params, s2) \<Rightarrow>
               (case template_loop (template_methods cls) params
                       (s2\<lparr>calls := calls s2 @ [CallIterTemplateMethods]\<rparr>) of
                  (Inl e, s3) \<Rightarrow> (Inl e, s3)
                | (Inr u, s3) \<Rightarrow>
                    (case template_file cls (world s3) (cfg_template (config s3)) of
                       Inl e \<Rightarrow>
                         (Inl e, s3\<lparr>calls := calls s3 @ [CallGetTemplateFile (cfg_template (config s3))]\<rparr>)
                     | Inr file \<Rightarrow>
                         (case renderer cls file (config s3) args (dicts s3 params) (world s3) of
                            (r, c4, g4) \<Rightarrow>
                              (r, s3\<lparr>config := c4, world := g4,
                                     calls := calls s3 @
                                       [CallGetTemplateFile (cfg_template (config s3)),
                                        CallRender file (dicts s3 params)]\<rparr>))))))"

text \<open>
  The calls one \<open>render\<close> makes: what it appends to the log. From a log, the names of
  the template methods called and the parameter sets passed to the renderer.
\<close>

definition render_log ::
  "('m BaseConfig_scheme, 'g, 'v, 'x) config_class \<Rightarrow> 'x \<Rightarrow> nat
     \<Rightarrow> ('m BaseConfig_scheme, 'g, 'v) pystate \<Rightarrow> 'v call list" where
  "render_log cls args kwargs s =
     drop (length (calls s)) (calls (snd (BaseConfig_render cls args kwargs s)))"


fun method_calls :: "'v call list \<Rightarrow> string list" where
  "method_calls [] = []"
| "method_calls (CallMethod n # cs) = n # method_calls cs"
| "method_calls (c # cs) = method_calls cs"

fun rendered_params :: "'v call list \<Rightarrow> 'v dict list" where
  "rendered_params [] = []"
| "rendered_params (CallRender f ps # cs) = ps # rendered_params cs"
| "rendered_params (c # cs) = rendered_params cs"

section \<open>enum.py: RenderableEnum\<close>


text \<open>
  A value bound in a module is a class or something else. Of a class the dispatch needs
  two things: whether it is a subclass of \<open>Renderable\<close>, and its \<open>render\<close>
  classmethod (which may raise). \<open>'c\<close> is the configuration, \<open>'r\<close> what a render
  returns.
\<close>

record ('c, 'r) pyclass =
  subclass_of_Renderable :: bool
  cls_render :: "'c \<Rightarrow> exn + 'r"

datatype ('c, 'r) pyobj = Class "('c, 'r) pyclass" | NonClass

text \<open>\<^verbatim>\<open>issubclass(obj, Renderable)\<close> raises TypeError when \<open>obj\<close> is not a class.\<close>

fun issubclass_Renderable :: "('c, 'r) pyobj \<Rightarrow> exn + bool" where
  "issubclass_Renderable (Class c) = Inr (subclass_of_Renderable c)"
| "issubclass_Renderable NonClass = Inl (Exn TypeError ''issubclass() arg 1 must be a class'')"

text \<open>\<^verbatim>\<open>obj.render(cfg)\<close>; the loop reaches it for classes only.\<close>

fun obj_render :: "('c, 'r) pyobj \<Rightarrow> 'c \<Rightarrow> exn + 'r" where
  "obj_render (Class c) cfg = cls_render c cfg"
| "obj_render NonClass cfg = Inl (Exn AttributeError ''render'')"

text \<open>
  \<^verbatim>\<open>
  def render(self, cfg):
      module = inspect.getmodule(self)
      for name, obj in inspect.getmembers(module):
          if name == self.name and issubclass(obj, Renderable):
              return obj.render(cfg)
      msg = f"No renderable class found for {self.name}"
      raise ValueError(msg)
  \<close>
  The first argument is \<open>self.name\<close>, the second the list
  \<^verbatim>\<open>inspect.getmembers(module)\<close> as it is when the call is made: the pairs (name, value)
  of the module that defines the enum. \<^verbatim>\<open>and\<close> evaluates its second operand only when
  the names are equal.
\<close>

fun RenderableEnum_render ::
  "string \<Rightarrow> (string \<times> ('c, 'r) pyobj) list \<Rightarrow> 'c \<Rightarrow> exn + 'r" where
  "RenderableEnum_render self_name [] cfg =
     Inl (Exn ValueError (''No renderable class found for '' @ self_name))"
| "RenderableEnum_render self_name ((name, obj) # members) cfg =
     (if name = self_name then
        (case issubclass_Renderable obj of
           Inl e \<Rightarrow> Inl e
         | Inr True \<Rightarrow> obj_render obj cfg
         | Inr False \<Rightarrow> RenderableEnum_render self_name members cfg)
      else RenderableEnum_render self_name members cfg)"

section \<open>A configuration class to run the definitions on\<close>

text \<open>
  A dataclass with one numeric field beside the template reference, two template methods
  \<open>x\<close> and \<open>y\<close>, a template file \<^verbatim>\<open>/proj/template.jinja\<close> found from the working
  directory \<^verbatim>\<open>/proj\<close>, and, in place of the template engine on a template that
  prints the field, a renderer that returns the field in decimal. The update hook is left
  open. The world is the filesystem and one module-level variable \<open>hits\<close>.
\<close>

record Counter = BaseConfig +
  count :: nat

record World =
  files :: filesystem
  hits :: nat

fun string_of_nat :: "nat \<Rightarrow> string" where
  "string_of_nat k =
     (if k < 10 then [''0123456789'' ! k]
      else string_of_nat (k div 10) @ [''0123456789'' ! (k mod 10)])"

definition example_fs :: filesystem where
  "example_fs = \<lparr>entries = {[''proj''], [''proj'', ''template.jinja'']}, cwd = [''proj'']\<rparr>"

definition counter_cls ::
  "(Counter \<Rightarrow> World \<Rightarrow> (exn + unit) \<times> Counter \<times> World)
     \<Rightarrow> (Counter, World, nat, unit) config_class" where
  "counter_cls upd =
     \<lparr>update = upd,
      template_methods =
        [(''x'', \<lambda>c g. (Inr (count c), c, g)), (''y'', \<lambda>c g. (Inr 7, c, g))],
      template_file = (\<lambda>g ref. get_template_file (files g) [''pkg'', ''src''] ref None),
      renderer = (\<lambda>file c args ps g. (Inr (string_of_nat (count c)), c, g))\<rparr>"

text \<open>
  A class with the default update hook, which does nothing, and one template method
  \<open>h\<close> that counts its calls in the module-level variable and returns the count; in
  place of the template engine on a template that prints \<open>h\<close>, a renderer that returns
  the parameter \<open>h\<close> in decimal. No callable writes to the configuration.
\<close>

definition hits_cls :: "(Counter, World, nat, unit) config_class" where
  "hits_cls =
     \<lparr>update = (\<lambda>c g. (Inr (), c, g)),
      template_methods = [(''h'', \<lambda>c g. (Inr (Suc (hits g)), c, g\<lparr>hits := Suc (hits g)\<rparr>))],
      template_file = (\<lambda>g ref. get_template_file (files g) [''pkg'', ''src''] ref None),
      renderer = (\<lambda>file c args ps g.
        (Inr (case map_of ps ''h'' of None \<Rightarrow> [] | Some v \<Rightarrow> string_of_nat v), c, g))\<rparr>"

text \<open>
  A third filesystem, that of the repository's test \<^verbatim>\<open>test_existing_file_in_dir\<close>:
  the working directory \<^verbatim>\<open>/tmp\<close> with the file \<^verbatim>\<open>dir/template.jinja\<close> in it.
\<close>

definition dir_fs :: filesystem where
  "dir_fs =
     \<lparr>entries = {[''tmp'', ''dir''], [''tmp'', ''dir'', ''template.jinja'']}, cwd = [''tmp'']\<rparr>"

text \<open>
  A second filesystem, for the search: nothing under the working directory \<^verbatim>\<open>/tmp\<close>,
  one file beside the class's source in \<^verbatim>\<open>/pkg/src\<close>, one in a \<^verbatim>\<open>templates\<close>
  directory of its parent.
\<close>

definition search_fs :: filesystem where
  "search_fs =
     \<lparr>entries = {[''pkg'', ''src'', ''local.jinja''], [''pkg'', ''templates'', ''template.jinja'']},
      cwd = [''tmp'']\<rparr>"

text \<open>Three update hooks: one that counts the calls, one that is idempotent, one that raises.\<close>

definition increment :: "Counter \<Rightarrow> World \<Rightarrow> (exn + unit) \<times> Counter \<times> World" where
  "increment c g = (Inr (), c\<lparr>count := Suc (count c)\<rparr>, g)"

definition normalise :: "Counter \<Rightarrow> World \<Rightarrow> (exn + unit) \<times> Counter \<times> World" where
  "normalise c g = (Inr (), c\<lparr>count := 1\<rparr>, g)"

definition invalid :: "Counter \<Rightarrow> World \<Rightarrow> (exn + unit) \<times> Counter \<times> World" where
  "invalid c g = (Inl (Exn (UserException ''Invalid'') ''count''), c, g)"

text \<open>
  The state before a call: at address 0 the dict \<^verbatim>\<open>{"x": 5}\<close>, the keyword
  arguments of \<^verbatim>\<open>Counter.render(cfg, x=5)\<close>; at address 1 the empty dict, those of
  \<^verbatim>\<open>Counter.render(cfg)\<close>.
\<close>

definition example_state :: "(Counter, World, nat) pystate" where
  "example_state =
     \<lparr>config = \<lparr>cfg_template = Rel [''template.jinja''], count = 0\<rparr>,
      world = \<lparr>files = example_fs, hits = 0\<rparr>,
      dicts = (\<lambda>a. [])(0 := [(''x'', 5)]),
      next_addr = 2,
      calls = []\<rparr>"

section \<open>Enum dispatch: results\<close>

text \<open>
  Claim C7. When the module that defines the enum member binds, under the member's name, a
  class that is a subclass of Renderable, the member's render returns exactly what that
  class's render returns on the configuration (a value, or the exception it raises). The
  members are those the module has when the call is made, so a class bound after the enum
  was defined is found.
\<close>

theorem RenderableEnum_render_forwards:
  assumes "map_of members n = Some (Class c)"
    and "subclass_of_Renderable c"
  shows "RenderableEnum_render n members cfg = cls_render c cfg"
  using assms by (induction members) (auto split: if_splits)

theorem RenderableEnum_render_forwards_witness:
  "RenderableEnum_render ''A''
     [(''x'', NonClass),
      (''A'', Class \<lparr>subclass_of_Renderable = True, cls_render = (\<lambda>cfg::nat. Inr ''a'')\<rparr>)] 0
   = (Inr ''a'' :: exn + string)"
proof -
  let ?c = "\<lparr>subclass_of_Renderable = True, cls_render = (\<lambda>cfg::nat. Inr ''a'' :: exn + string)\<rparr>"
  have h1: "map_of [(''x'', NonClass), (''A'', Class ?c)] ''A'' = Some (Class ?c)" by simp
  have h2: "subclass_of_Renderable ?c" by simp
  from RenderableEnum_render_forwards [OF h1 h2, of 0] show ?thesis by simp
qed

text \<open>
  Claim C10. When the module binds a value that is not a class under the member's name,
  the subclass test raises TypeError, and the member's render raises that TypeError, not
  the "No renderable class found" error of the end of the loop.
\<close>

theorem RenderableEnum_render_nonclass:
  assumes "map_of members n = Some NonClass"
  shows "RenderableEnum_render n members (cfg::'c) =
           (Inl (Exn TypeError ''issubclass() arg 1 must be a class'') :: exn + 'r)
         \<and> RenderableEnum_render n members cfg \<noteq>
           (Inl (Exn ValueError (''No renderable class found for '' @ n)) :: exn + 'r)"
  using assms by (induction members) (auto split: if_splits)

theorem RenderableEnum_render_nonclass_witness:
  "RenderableEnum_render ''A'' [(''A'', NonClass)] (0::nat) =
     (Inl (Exn TypeError ''issubclass() arg 1 must be a class'') :: exn + string)"
proof -
  have h: "map_of [(''A'', NonClass :: (nat, string) pyobj)] ''A'' = Some NonClass" by simp
  from RenderableEnum_render_nonclass [OF h, of 0] show ?thesis by simp
qed

text \<open>
  Claim C2, as stated, fails: with no class of the member's name in the module, the
  exception raised is a ValueError, and a ValueError is not a LookupError.
\<close>

theorem RenderableEnum_render_not_LookupError:
  "RenderableEnum_render ''A''
     [(''B'', Class \<lparr>subclass_of_Renderable = True, cls_render = (\<lambda>cfg::nat. Inr ''b'')\<rparr>)] 0
   = (Inl (Exn ValueError ''No renderable class found for A'') :: exn + string)
   \<and> \<not> isinstance_LookupError (Exn ValueError ''No renderable class found for A'')"
  by simp

text \<open>
  Claim C2, amended. When every value the module binds under the member's name is a class
  that is not a subclass of Renderable (in particular when the name is not bound at all),
  the member's render raises ValueError with the message
  "No renderable class found for <name>".
\<close>

theorem RenderableEnum_render_not_found:
  assumes "\<forall>obj. (n, obj) \<in> set members \<longrightarrow> (\<exists>c. obj = Class c \<and> \<not> subclass_of_Renderable c)"
  shows "RenderableEnum_render n members cfg =
           Inl (Exn ValueError (''No renderable class found for '' @ n))"
  using assms by (induction members) (auto split: if_splits)

theorem RenderableEnum_render_not_found_witness:
  "RenderableEnum_render ''A''
     [(''A'', Class \<lparr>subclass_of_Renderable = False, cls_render = (\<lambda>cfg::nat. Inr ''a'')\<rparr>),
      (''B'', Class \<lparr>subclass_of_Renderable = True, cls_render = (\<lambda>cfg::nat. Inr ''b'')\<rparr>)] 0
   = (Inl (Exn ValueError ''No renderable class found for A'') :: exn + string)"
proof -
  let ?members = "[(''A'', Class \<lparr>subclass_of_Renderable = False, cls_render = (\<lambda>cfg::nat. Inr ''a'' :: exn + string)\<rparr>),
      (''B'', Class \<lparr>subclass_of_Renderable = True, cls_render = (\<lambda>cfg::nat. Inr ''b'')\<rparr>)]"
  have h: "\<forall>obj. (''A'', obj) \<in> set ?members \<longrightarrow> (\<exists>c. obj = Class c \<and> \<not> subclass_of_Renderable c)"
    by auto
  from RenderableEnum_render_not_found [OF h, of 0] show ?thesis by simp
qed

section \<open>The loop over the template methods\<close>

text \<open>
  The loop writes to the dict \<open>params\<close> only; it never changes
  the value of a key the dict has; it logs a call for each method it runs, in the order of
  the sequence and only for names the dict did not have; and when it ends without an
  exception every name of the sequence is a key.
\<close>

lemma template_loop_frame:
  "a \<noteq> p \<Longrightarrow> dicts (snd (template_loop ms p s)) a = dicts s a"
  by (induction ms arbitrary: s) (auto split: prod.splits sum.splits)

lemma template_loop_keeps:
  "map_of (dicts s p) k = Some v \<Longrightarrow> map_of (dicts (snd (template_loop ms p s)) p) k = Some v"
proof (induction ms arbitrary: s)
  case Nil
  then show ?case by simp
next
  case (Cons m ms)
  obtain name obj where m: "m = (name, obj)" by (cases m)
  show ?case
  proof (cases "map_of (dicts s p) name = None")
    case False
    with Cons m show ?thesis by auto
  next
    case True
    with Cons.prems have ne: "name \<noteq> k" by auto
    obtain r c g where oc: "obj (config s) (world s) = (r, c, g)" by (rule prod_cases3)
    show ?thesis
    proof (cases r)
      case (Inl e)
      with True oc m Cons.prems show ?thesis by simp
    next
      case (Inr v')
      let ?s' = "s\<lparr>config := c, world := g, dicts := (dicts s)(p := AList.update name v' (dicts s p)),
                  calls := calls s @ [CallMethod name]\<rparr>"
      have "map_of (dicts ?s' p) k = Some v"
        using Cons.prems ne by (simp add: update_conv')
      from Cons.IH [OF this] show ?thesis
        using True oc m Inr by simp
    qed
  qed
qed

lemma template_loop_calls:
  "\<exists>ns. calls (snd (template_loop ms p s)) = calls s @ map CallMethod ns
        \<and> subseq ns (map fst ms)
        \<and> (\<forall>n\<in>set ns. map_of (dicts s p) n = None)"
proof (induction ms arbitrary: s)
  case Nil
  then show ?case by simp
next
  case (Cons m ms)
  obtain name obj where m: "m = (name, obj)" by (cases m)
  show ?case
  proof (cases "map_of (dicts s p) name = None")
    case False
    from Cons.IH [of s] obtain ns where
      "calls (snd (template_loop ms p s)) = calls s @ map CallMethod ns"
      "subseq ns (map fst ms)" "\<forall>n\<in>set ns. map_of (dicts s p) n = None" by blast
    with False m show ?thesis by (auto intro!: exI [of _ ns])
  next
    case True
    obtain r c g where oc: "obj (config s) (world s) = (r, c, g)" by (rule prod_cases3)
    show ?thesis
    proof (cases r)
      case (Inl e)
      with True oc m show ?thesis by (auto intro!: exI [of _ "[name]"])
    next
      case (Inr v')
      let ?s' = "s\<lparr>config := c, world := g, dicts := (dicts s)(p := AList.update name v' (dicts s p)),
                  calls := calls s @ [CallMethod name]\<rparr>"
      from Cons.IH [of ?s'] obtain ns where ns:
        "calls (snd (template_loop ms p ?s')) = calls ?s' @ map CallMethod ns"
        "subseq ns (map fst ms)" "\<forall>n\<in>set ns. map_of (dicts ?s' p) n = None" by blast
      have "\<forall>n\<in>set ns. map_of (dicts s p) n = None"
        using ns(3) by (auto simp: update_conv' split: if_splits)
      with ns True oc m Inr show ?thesis
        by (auto intro!: exI [of _ "name # ns"])
    qed
  qed
qed

lemma template_loop_complete:
  "fst (template_loop ms p s) = Inr u \<Longrightarrow> n \<in> fst ` set ms
   \<Longrightarrow> map_of (dicts (snd (template_loop ms p s)) p) n \<noteq> None"
proof (induction ms arbitrary: s)
  case Nil
  then show ?case by simp
next
  case (Cons m ms)
  obtain name obj where m: "m = (name, obj)" by (cases m)
  show ?case
  proof (cases "map_of (dicts s p) name = None")
    case False
    show ?thesis
    proof (cases "n = name")
      case True
      from False obtain v where "map_of (dicts s p) name = Some v" by auto
      from template_loop_keeps [OF this, of ms] False m True show ?thesis by auto
    next
      case neq: False
      with Cons.prems m have "n \<in> fst ` set ms" by auto
      with Cons.IH [of s] Cons.prems False m show ?thesis by auto
    qed
  next
    case True
    obtain r c g where oc: "obj (config s) (world s) = (r, c, g)" by (rule prod_cases3)
    show ?thesis
    proof (cases r)
      case (Inl e)
      with True oc m Cons.prems show ?thesis by simp
    next
      case (Inr v')
      let ?s' = "s\<lparr>config := c, world := g, dicts := (dicts s)(p := AList.update name v' (dicts s p)),
                  calls := calls s @ [CallMethod name]\<rparr>"
      have step: "template_loop (m # ms) p s = template_loop ms p ?s'"
        using True oc m Inr by simp
      show ?thesis
      proof (cases "n = name")
        case True
        have "map_of (dicts ?s' p) name = Some v'" by (simp add: update_conv')
        from template_loop_keeps [OF this, of ms] True step show ?thesis by simp
      next
        case False
        with Cons.prems m have "n \<in> fst ` set ms" by auto
        with Cons.IH [of ?s'] Cons.prems step show ?thesis by simp
      qed
    qed
  qed
qed

lemma template_loop_sim:
  "config s = config t \<Longrightarrow> world s = world t \<Longrightarrow> dicts s p = dicts t q \<Longrightarrow>
   fst (template_loop ms p s) = fst (template_loop ms q t)
   \<and> config (snd (template_loop ms p s)) = config (snd (template_loop ms q t))
   \<and> world (snd (template_loop ms p s)) = world (snd (template_loop ms q t))
   \<and> dicts (snd (template_loop ms p s)) p = dicts (snd (template_loop ms q t)) q"
proof (induction ms arbitrary: s t)
  case Nil
  then show ?case by simp
next
  case (Cons m ms)
  obtain name obj where m: "m = (name, obj)" by (cases m)
  show ?case
  proof (cases "map_of (dicts s p) name = None")
    case False
    with Cons.prems have "map_of (dicts t q) name \<noteq> None" by simp
    with False m Cons.IH [OF Cons.prems] show ?thesis by (simp del: not_None_eq)
  next
    case True
    with Cons.prems have T: "map_of (dicts t q) name = None" by simp
    obtain r c g where oc: "obj (config s) (world s) = (r, c, g)" by (rule prod_cases3)
    with Cons.prems have oc': "obj (config t) (world t) = (r, c, g)" by simp
    show ?thesis
    proof (cases r)
      case (Inl e)
      with True T oc oc' m Cons.prems show ?thesis by simp
    next
      case (Inr v)
      let ?s' = "s\<lparr>config := c, world := g, dicts := (dicts s)(p := AList.update name v (dicts s p)),
                  calls := calls s @ [CallMethod name]\<rparr>"
      let ?t' = "t\<lparr>config := c, world := g, dicts := (dicts t)(q := AList.update name v (dicts t q)),
                  calls := calls t @ [CallMethod name]\<rparr>"
      have "config ?s' = config ?t'" "world ?s' = world ?t'" "dicts ?s' p = dicts ?t' q"
        using Cons.prems by simp_all
      from Cons.IH [OF this] show ?thesis
        using True T oc oc' m Inr by simp
    qed
  qed
qed

section \<open>BaseConfig.render: results\<close>

lemma method_calls_append: "method_calls (xs @ ys) = method_calls xs @ method_calls ys"
  by (induction xs rule: method_calls.induct) simp_all

lemma method_calls_map: "method_calls (map CallMethod ns) = ns"
  by (induction ns) simp_all

lemma rendered_params_append:
  "rendered_params (xs @ ys) = rendered_params xs @ rendered_params ys"
  by (induction xs rule: rendered_params.induct) simp_all

lemma rendered_params_map: "rendered_params (map CallMethod ns) = []"
  by (induction ns) simp_all

lemma render_raise:
  "update cls (config s) (world s) = (Inl e, c, g) \<Longrightarrow>
   BaseConfig_render cls args kwargs s =
     (Inl e, s\<lparr>config := c, world := g, calls := calls s @ [CallUpdate]\<rparr>)"
  by (simp add: BaseConfig_render_def)

lemma render_frame:
  assumes "a \<noteq> next_addr s"
  shows "dicts (snd (BaseConfig_render cls args kwargs s)) a = dicts s a"
proof -
  obtain r0 c1 g1 where up: "update cls (config s) (world s) = (r0, c1, g1)"
    by (rule prod_cases3)
  show ?thesis
  proof (cases r0)
    case (Inl e)
    with up show ?thesis by (simp add: render_raise)
  next
    case (Inr u)
    define s2 where "s2 = s\<lparr>config := c1, world := g1, dicts := (dicts s)(next_addr s := dicts s kwargs),
      next_addr := Suc (next_addr s), calls := calls s @ [CallUpdate, CallIterTemplateMethods]\<rparr>"
    have "dicts (snd (template_loop (template_methods cls) (next_addr s) s2)) a = dicts s2 a"
      using assms by (rule template_loop_frame)
    also have "dicts s2 a = dicts s a"
      using assms by (simp add: s2_def)
    finally show ?thesis
      using up Inr
      by (auto simp: BaseConfig_render_def dict_copy_def s2_def split: prod.splits sum.splits)
  qed
qed

lemma render_calls:
  "calls (snd (BaseConfig_render cls args kwargs s)) = calls s @ render_log cls args kwargs s"
proof -
  obtain r0 c1 g1 where up: "update cls (config s) (world s) = (r0, c1, g1)"
    by (rule prod_cases3)
  show ?thesis
  proof (cases r0)
    case (Inl e)
    with up show ?thesis by (simp add: render_raise render_log_def)
  next
    case (Inr u)
    define s2 where "s2 = s\<lparr>config := c1, world := g1, dicts := (dicts s)(next_addr s := dicts s kwargs),
      next_addr := Suc (next_addr s), calls := calls s @ [CallUpdate, CallIterTemplateMethods]\<rparr>"
    from template_loop_calls [of "template_methods cls" "next_addr s" s2]
    obtain ns where "calls (snd (template_loop (template_methods cls) (next_addr s) s2))
        = calls s2 @ map CallMethod ns" by blast
    then show ?thesis
      using up Inr
      by (auto simp: render_log_def BaseConfig_render_def dict_copy_def s2_def
          split: prod.splits sum.splits)
  qed
qed

lemma render_log_shape:
  "(\<exists>e c g. update cls (config s) (world s) = (Inl e, c, g)
      \<and> render_log cls args kwargs s = [CallUpdate])
   \<or> (\<exists>ns tl.
        render_log cls args kwargs s =
          CallUpdate # CallIterTemplateMethods # map CallMethod ns @ tl
        \<and> subseq ns (map fst (template_methods cls))
        \<and> (\<forall>n\<in>set ns. map_of (dicts s kwargs) n = None)
        \<and> (tl = [] \<or> (\<exists>ref. tl = [CallGetTemplateFile ref])
            \<or> (\<exists>ref file ps. tl = [CallGetTemplateFile ref, CallRender file ps]
                 \<and> (\<forall>k v. map_of (dicts s kwargs) k = Some v \<longrightarrow> map_of ps k = Some v)
                 \<and> (\<forall>n\<in>fst ` set (template_methods cls). map_of ps n \<noteq> None))))"
proof -
  obtain r0 c1 g1 where up: "update cls (config s) (world s) = (r0, c1, g1)"
    by (rule prod_cases3)
  show ?thesis
  proof (cases r0)
    case (Inl e)
    with up have "render_log cls args kwargs s = [CallUpdate]"
      by (simp add: render_log_def BaseConfig_render_def)
    with up Inl show ?thesis by blast
  next
    case (Inr u)
    define p where "p = next_addr s"
    define s2 where "s2 = s\<lparr>config := c1, world := g1, dicts := (dicts s)(p := dicts s kwargs),
      next_addr := Suc p, calls := calls s @ [CallUpdate, CallIterTemplateMethods]\<rparr>"
    obtain r3 s3 where loop: "template_loop (template_methods cls) p s2 = (r3, s3)"
      by (cases "template_loop (template_methods cls) p s2")
    have s2p: "dicts s2 p = dicts s kwargs" by (simp add: s2_def)
    from template_loop_calls [of "template_methods cls" p s2] loop s2p
    obtain ns where ns: "calls s3 = calls s @ [CallUpdate, CallIterTemplateMethods] @ map CallMethod ns"
      "subseq ns (map fst (template_methods cls))"
      "\<forall>n\<in>set ns. map_of (dicts s kwargs) n = None"
      by (auto simp: s2_def)
    have keeps: "\<forall>k v. map_of (dicts s kwargs) k = Some v \<longrightarrow> map_of (dicts s3 p) k = Some v"
      using template_loop_keeps [of s2 p _ _ "template_methods cls"] loop s2p by auto
    show ?thesis
    proof (cases r3)
      case (Inl e)
      have "BaseConfig_render cls args kwargs s = (Inl e, s3)"
        using up Inr loop Inl
        by (simp add: BaseConfig_render_def dict_copy_def s2_def p_def)
      then have "render_log cls args kwargs s =
          CallUpdate # CallIterTemplateMethods # map CallMethod ns @ []"
        using ns(1) by (simp add: render_log_def)
      with ns(2,3) show ?thesis by blast
    next
      case ok: (Inr u')
      have complete: "\<forall>n\<in>fst ` set (template_methods cls). map_of (dicts s3 p) n \<noteq> None"
        using template_loop_complete [of "template_methods cls" p s2 u'] loop ok
        by (simp del: not_None_eq)
      show ?thesis
      proof (cases "template_file cls (world s3) (cfg_template (config s3))")
        case (Inl e)
        have "BaseConfig_render cls args kwargs s =
            (Inl e, s3\<lparr>calls := calls s3 @ [CallGetTemplateFile (cfg_template (config s3))]\<rparr>)"
          using up Inr loop ok Inl
          by (simp add: BaseConfig_render_def dict_copy_def s2_def p_def)
        then have "render_log cls args kwargs s =
            CallUpdate # CallIterTemplateMethods # map CallMethod ns
              @ [CallGetTemplateFile (cfg_template (config s3))]"
          using ns(1) by (simp add: render_log_def)
        with ns(2,3) show ?thesis by blast
      next
        case found: (Inr tf)
        obtain r c4 g4 where
          rd: "renderer cls tf (config s3) args (dicts s3 p) (world s3) = (r, c4, g4)"
          by (rule prod_cases3)
        have "BaseConfig_render cls args kwargs s =
            (r, s3\<lparr>config := c4, world := g4, calls := calls s3 @
               [CallGetTemplateFile (cfg_template (config s3)), CallRender tf (dicts s3 p)]\<rparr>)"
          using up Inr loop ok found rd
          by (simp add: BaseConfig_render_def dict_copy_def s2_def p_def)
        then have "render_log cls args kwargs s =
            CallUpdate # CallIterTemplateMethods # map CallMethod ns
              @ [CallGetTemplateFile (cfg_template (config s3)), CallRender tf (dicts s3 p)]"
          using ns(1) by (simp add: render_log_def)
        with ns(2,3) keeps complete show ?thesis by blast
      qed
    qed
  qed
qed

lemma render_sim:
  assumes "update cls (config s) (world s) = update cls (config t) (world t)"
    and "dicts s kw = dicts t kw'"
  shows "fst (BaseConfig_render cls args kw s) = fst (BaseConfig_render cls args kw' t)"
proof -
  obtain r0 c1 g1 where up: "update cls (config s) (world s) = (r0, c1, g1)"
    by (rule prod_cases3)
  with assms have up': "update cls (config t) (world t) = (r0, c1, g1)" by simp
  show ?thesis
  proof (cases r0)
    case (Inl e)
    with up up' show ?thesis by (simp add: render_raise)
  next
    case (Inr u)
    define s2 where "s2 = s\<lparr>config := c1, world := g1, dicts := (dicts s)(next_addr s := dicts s kw),
      next_addr := Suc (next_addr s), calls := calls s @ [CallUpdate, CallIterTemplateMethods]\<rparr>"
    define t2 where "t2 = t\<lparr>config := c1, world := g1, dicts := (dicts t)(next_addr t := dicts t kw'),
      next_addr := Suc (next_addr t), calls := calls t @ [CallUpdate, CallIterTemplateMethods]\<rparr>"
    have "config s2 = config t2" "world s2 = world t2"
      "dicts s2 (next_addr s) = dicts t2 (next_addr t)"
      using assms by (simp_all add: s2_def t2_def)
    from template_loop_sim [OF this, of "template_methods cls"] show ?thesis
      using up up' Inr
      by (auto simp: BaseConfig_render_def dict_copy_def s2_def t2_def
          split: prod.splits sum.splits)
  qed
qed

lemmas example_defs =
  BaseConfig_render_def render_log_def dict_copy_def counter_cls_def example_state_def
  get_template_file_def example_fs_def

text \<open>
  Claim C1. In one call of render, whatever the class, the arguments and the state: a
  template method is called only under a name that is not a key of \<open>kwargs\<close>; the
  methods called are called in discovery order; the parameter set passed to the renderer
  maps every key of \<open>kwargs\<close> to its explicit value; and it has an entry for every
  discovered name.
\<close>

theorem BaseConfig_render_explicit_kwargs_win:
  "(\<forall>n\<in>set (method_calls (render_log cls args kwargs s)). map_of (dicts s kwargs) n = None)
   \<and> subseq (method_calls (render_log cls args kwargs s)) (map fst (template_methods cls))
   \<and> (\<forall>ps\<in>set (rendered_params (render_log cls args kwargs s)).
        \<forall>k v. map_of (dicts s kwargs) k = Some v \<longrightarrow> map_of ps k = Some v)
   \<and> (\<forall>ps\<in>set (rendered_params (render_log cls args kwargs s)).
        \<forall>n\<in>fst ` set (template_methods cls). map_of ps n \<noteq> None)"
  using render_log_shape [of cls s args kwargs]
  by (elim disjE exE conjE)
     (simp_all add: method_calls_append method_calls_map rendered_params_append
        rendered_params_map del: not_None_eq)

text \<open>
  \<^verbatim>\<open>Counter.render(cfg, x=5)\<close>: the method \<open>x\<close> is not called, \<open>y\<close> is, and the
  renderer receives \<open>x = 5\<close>.
\<close>

theorem BaseConfig_render_explicit_kwargs_win_witness:
  "map_of (dicts example_state 0) ''x'' = Some 5
   \<and> rendered_params (render_log (counter_cls increment) () 0 example_state)
       = [[(''x'', 5), (''y'', 7)]]
   \<and> map_of (hd (rendered_params (render_log (counter_cls increment) () 0 example_state))) ''x''
       = Some 5
   \<and> method_calls (render_log (counter_cls increment) () 0 example_state) = [''y'']"
proof -
  let ?log = "render_log (counter_cls increment) () 0 example_state"
  have log: "?log = [CallUpdate, CallIterTemplateMethods, CallMethod ''y'',
      CallGetTemplateFile (Rel [''template.jinja'']),
      CallRender (Rel [''template.jinja'']) [(''x'', 5), (''y'', 7)]]"
    by (simp add: example_defs increment_def)
  have kw: "map_of (dicts example_state 0) ''x'' = Some 5"
    by (simp add: example_state_def)
  have mem: "hd (rendered_params ?log) \<in> set (rendered_params ?log)"
    by (simp add: log)
  from BaseConfig_render_explicit_kwargs_win [of "counter_cls increment" "()" 0 example_state]
  have "\<forall>ps\<in>set (rendered_params ?log).
          \<forall>k v. map_of (dicts example_state 0) k = Some v \<longrightarrow> map_of ps k = Some v"
    by blast
  with mem kw have "map_of (hd (rendered_params ?log)) ''x'' = Some 5"
    by blast
  with kw log show ?thesis by simp
qed

text \<open>
  Claim C6. A call of render only appends to the log, and what it appends starts with the
  call of the update hook, which is not called again. When the hook raises, render
  returns that exception, and the state is the one the hook left (configuration and
  world) with that one call logged: no template method was called, no dict was copied, no template file was looked
  up, nothing was rendered.
\<close>

theorem BaseConfig_render_update_first:
  "calls (snd (BaseConfig_render cls args kwargs s)) = calls s @ render_log cls args kwargs s
   \<and> (\<exists>rest. render_log cls args kwargs s = CallUpdate # rest \<and> CallUpdate \<notin> set rest)
   \<and> (\<forall>e c g. update cls (config s) (world s) = (Inl e, c, g) \<longrightarrow>
         BaseConfig_render cls args kwargs s =
           (Inl e, s\<lparr>config := c, world := g, calls := calls s @ [CallUpdate]\<rparr>)
         \<and> render_log cls args kwargs s = [CallUpdate])"
proof (intro conjI allI impI)
  show "calls (snd (BaseConfig_render cls args kwargs s)) = calls s @ render_log cls args kwargs s"
    by (rule render_calls)
  show "\<exists>rest. render_log cls args kwargs s = CallUpdate # rest \<and> CallUpdate \<notin> set rest"
    using render_log_shape [of cls s args kwargs] by auto
next
  fix e c g
  assume "update cls (config s) (world s) = (Inl e, c, g)"
  then show "BaseConfig_render cls args kwargs s =
      (Inl e, s\<lparr>config := c, world := g, calls := calls s @ [CallUpdate]\<rparr>)"
    by (rule render_raise)
  then show "render_log cls args kwargs s = [CallUpdate]"
    by (simp add: render_log_def)
qed

theorem BaseConfig_render_update_first_witness:
  "update (counter_cls invalid) (config example_state) (world example_state)
     = (Inl (Exn (UserException ''Invalid'') ''count''),
        config example_state, world example_state)
   \<and> BaseConfig_render (counter_cls invalid) () 1 example_state
     = (Inl (Exn (UserException ''Invalid'') ''count''),
        example_state\<lparr>config := config example_state, world := world example_state,
          calls := calls example_state @ [CallUpdate]\<rparr>)
   \<and> render_log (counter_cls invalid) () 1 example_state = [CallUpdate]"
proof -
  have up: "update (counter_cls invalid) (config example_state) (world example_state)
     = (Inl (Exn (UserException ''Invalid'') ''count''),
        config example_state, world example_state)"
    by (simp add: counter_cls_def invalid_def)
  from BaseConfig_render_update_first [of "counter_cls invalid" "()" 1 example_state] up
  show ?thesis by blast
qed

text \<open>
  Claim C9. The dict of keyword arguments is the same after the call as before: the
  entries of the template methods go to the copy, which is a new object.
\<close>

theorem BaseConfig_render_kwargs_unchanged:
  assumes "kwargs < next_addr s"
  shows "dicts (snd (BaseConfig_render cls args kwargs s)) kwargs = dicts s kwargs"
  using assms by (intro render_frame) simp

theorem BaseConfig_render_kwargs_unchanged_witness:
  "0 < next_addr example_state
   \<and> dicts (snd (BaseConfig_render (counter_cls increment) () 0 example_state)) 0 = [(''x'', 5)]
   \<and> dicts (snd (BaseConfig_render (counter_cls increment) () 0 example_state)) 2
       = [(''x'', 5), (''y'', 7)]"
proof -
  have h: "0 < next_addr example_state" by (simp add: example_state_def)
  have "dicts example_state 0 = [(''x'', 5)]" by (simp add: example_state_def)
  with BaseConfig_render_kwargs_unchanged [OF h, of "counter_cls increment" "()"]
  have "dicts (snd (BaseConfig_render (counter_cls increment) () 0 example_state)) 0 = [(''x'', 5)]"
    by simp
  moreover have "dicts (snd (BaseConfig_render (counter_cls increment) () 0 example_state)) 2
       = [(''x'', 5), (''y'', 7)]"
    by (simp add: example_defs increment_def)
  ultimately show ?thesis using h by simp
qed

text \<open>
  Claim C5, as stated, fails: render calls the update hook each time, and the hook
  mutates the configuration in place. With a hook that counts its calls in a field, and a
  template that prints the field, two calls in a row return different strings.
\<close>

theorem BaseConfig_render_twice_differs:
  "fst (BaseConfig_render (counter_cls increment) () 1 example_state) = Inr ''1''
   \<and> fst (BaseConfig_render (counter_cls increment) () 1
            (snd (BaseConfig_render (counter_cls increment) () 1 example_state))) = Inr ''2''
   \<and> fst (BaseConfig_render (counter_cls increment) () 1
            (snd (BaseConfig_render (counter_cls increment) () 1 example_state)))
       \<noteq> fst (BaseConfig_render (counter_cls increment) () 1 example_state)"
  by (simp add: example_defs increment_def)

text \<open>
  The same happens with the default update hook and a configuration that nothing writes
  to, when a template method returns a module-level counter: the claim fails through any
  state that the callables read and change, not through the configuration only.
\<close>

lemma BaseConfig_render_twice_global_counter:
  "fst (BaseConfig_render hits_cls () 1 example_state) = Inr ''1''
   \<and> config (snd (BaseConfig_render hits_cls () 1 example_state)) = config example_state
   \<and> fst (BaseConfig_render hits_cls () 1
            (snd (BaseConfig_render hits_cls () 1 example_state))) = Inr ''2''"
  by (simp add: BaseConfig_render_def dict_copy_def hits_cls_def example_state_def
      get_template_file_def example_fs_def)

text \<open>
  Claim C5, amended. The second of two calls of render in a row, with the same arguments
  and nothing changed between them, returns what the first returned whenever its update
  hook, run on the configuration and the world as the first call left them, has the
  outcome it had in the first call and leaves the configuration and the world (all the
  state outside the configuration that the template methods, the template lookup and the
  renderer read: module-level variables, the filesystem) as it left them in the first
  call. That is so for an idempotent hook, and for the default one that does nothing,
  when no template method and no rendering changes the configuration or the world.
\<close>

theorem BaseConfig_render_twice:
  assumes "kwargs < next_addr s"
    and "update cls (config (snd (BaseConfig_render cls args kwargs s)))
           (world (snd (BaseConfig_render cls args kwargs s)))
         = update cls (config s) (world s)"
  shows "fst (BaseConfig_render cls args kwargs (snd (BaseConfig_render cls args kwargs s)))
         = fst (BaseConfig_render cls args kwargs s)"
proof -
  have "dicts (snd (BaseConfig_render cls args kwargs s)) kwargs = dicts s kwargs"
    using assms(1) by (intro render_frame) simp
  with assms(2) show ?thesis by (rule render_sim)
qed

theorem BaseConfig_render_twice_witness:
  "fst (BaseConfig_render (counter_cls normalise) () 1
          (snd (BaseConfig_render (counter_cls normalise) () 1 example_state)))
     = fst (BaseConfig_render (counter_cls normalise) () 1 example_state)
   \<and> fst (BaseConfig_render (counter_cls normalise) () 1 example_state) = Inr ''1''"
proof -
  have h1: "1 < next_addr example_state" by (simp add: example_state_def)
  have h2: "update (counter_cls normalise)
              (config (snd (BaseConfig_render (counter_cls normalise) () 1 example_state)))
              (world (snd (BaseConfig_render (counter_cls normalise) () 1 example_state)))
            = update (counter_cls normalise) (config example_state) (world example_state)"
    by (simp add: example_defs normalise_def)
  have "fst (BaseConfig_render (counter_cls normalise) () 1 example_state) = Inr ''1''"
    by (simp add: example_defs normalise_def)
  with BaseConfig_render_twice [OF h1 h2] show ?thesis by simp
qed

section \<open>The template resolver: results\<close>

lemma find_rev_upt:
  "k < n \<Longrightarrow> P (f k) \<Longrightarrow> (\<forall>j. k < j \<and> j < n \<longrightarrow> \<not> P (f j)) \<Longrightarrow>
   List.find P (map f (rev [0..<n])) = Some (f k)"
proof (induction n)
  case 0
  then show ?case by simp
next
  case (Suc n)
  show ?case
  proof (cases "k = n")
    case True
    with Suc.prems show ?thesis by simp
  next
    case False
    with Suc.prems have "k < n" by simp
    moreover have "\<not> P (f n)" using Suc.prems False by auto
    moreover have "\<forall>j. k < j \<and> j < n \<longrightarrow> \<not> P (f j)" using Suc.prems by auto
    ultimately show ?thesis using Suc.IH Suc.prems(2) by simp
  qed
qed

text \<open>
  Claim C3, as stated, fails where the reference exists only joined with the directory
  argument: the resolver returns the joined path under the working directory, which is
  not the reference. In the setting of the repository's test
  \<^verbatim>\<open>test_existing_file_in_dir\<close>, the reference \<^verbatim>\<open>template.jinja\<close> with the
  directory \<^verbatim>\<open>dir\<close> gives \<^verbatim>\<open>/tmp/dir/template.jinja\<close>.
\<close>

theorem get_template_file_directory_not_reference:
  "path_exists dir_fs (joinpath (joinpath (Abs (cwd dir_fs)) (Rel [''dir''])) (Rel [''template.jinja'']))
   \<and> get_template_file dir_fs [''pkg'', ''src''] (Rel [''template.jinja'']) (Some (Rel [''dir'']))
       = Inr (Abs [''tmp'', ''dir'', ''template.jinja''])
   \<and> get_template_file dir_fs [''pkg'', ''src''] (Rel [''template.jinja'']) (Some (Rel [''dir'']))
       \<noteq> Inr (Rel [''template.jinja''])"
  by (simp add: get_template_file_def dir_fs_def)

text \<open>
  Claim C3, amended. A reference that exists as it is given, absolute or relative to the
  working directory, is returned as it is, whatever the class and the directory argument;
  a reference that exists only joined with the directory argument under the working
  directory is returned as that joined path, whatever the class. Neither result depends on
  the source directory of the class or on what exists there or at its ancestors.
\<close>

theorem get_template_file_existing:
  "(path_exists fsys p \<longrightarrow> get_template_file fsys class_source_dir p directory = Inr p)
   \<and> (\<not> path_exists fsys p \<and> path_exists fsys (joinpath (joinpath (Abs (cwd fsys)) sub) p) \<longrightarrow>
        get_template_file fsys class_source_dir p (Some sub)
          = Inr (joinpath (joinpath (Abs (cwd fsys)) sub) p))"
  by (simp add: get_template_file_def)

theorem get_template_file_existing_witness:
  "path_exists example_fs (Abs [''proj'', ''template.jinja''])
   \<and> get_template_file example_fs [''pkg'', ''src''] (Abs [''proj'', ''template.jinja'']) None
       = Inr (Abs [''proj'', ''template.jinja''])
   \<and> get_template_file (example_fs\<lparr>cwd := []\<rparr>) [''pkg'', ''src'']
        (Rel [''template.jinja'']) (Some (Rel [''proj'']))
       = Inr (Abs [''proj'', ''template.jinja''])"
proof -
  have h1: "path_exists example_fs (Abs [''proj'', ''template.jinja''])"
    by (simp add: example_fs_def)
  have h2: "\<not> path_exists (example_fs\<lparr>cwd := []\<rparr>) (Rel [''template.jinja''])
    \<and> path_exists (example_fs\<lparr>cwd := []\<rparr>)
        (joinpath (joinpath (Abs (cwd (example_fs\<lparr>cwd := []\<rparr>))) (Rel [''proj'']))
           (Rel [''template.jinja'']))"
    by (simp add: example_fs_def)
  from get_template_file_existing
         [where fsys = example_fs and p = "Abs [''proj'', ''template.jinja'']"
            and class_source_dir = "[''pkg'', ''src'']" and directory = None] h1
  have "get_template_file example_fs [''pkg'', ''src''] (Abs [''proj'', ''template.jinja'']) None
       = Inr (Abs [''proj'', ''template.jinja''])"
    by blast
  moreover from get_template_file_existing
         [where fsys = "example_fs\<lparr>cwd := []\<rparr>" and p = "Rel [''template.jinja'']"
            and sub = "Rel [''proj'']" and class_source_dir = "[''pkg'', ''src'']"] h2
  have "get_template_file (example_fs\<lparr>cwd := []\<rparr>) [''pkg'', ''src'']
        (Rel [''template.jinja'']) (Some (Rel [''proj'']))
       = Inr (Abs [''proj'', ''template.jinja''])"
    by simp
  ultimately show ?thesis using h1 by simp
qed

text \<open>
  Claim C4. For a bare name that does not exist relative to the working directory, and a
  class whose source lies in directory \<open>D\<close>: when \<open>D/name\<close> exists, the resolver
  without a directory argument returns it; when, under the join rule, the file is at the
  ancestor \<open>take k D\<close> of \<open>D\<close> and neither at \<open>D\<close> nor at a nearer ancestor, the
  resolver returns the ancestor's file; and when no candidate of the search exists, the
  resolver raises FileNotFoundError with the name as its message.
\<close>

theorem get_template_file_search:
  assumes "\<not> path_exists fsys (Rel [name])"
  shows "(D @ [name] \<in> entries fsys \<longrightarrow>
            get_template_file fsys D (Rel [name]) None = Inr (Abs (D @ [name])))
    \<and> (\<forall>directory k.
          \<not> path_exists fsys (candidate (cwd fsys) directory (Rel [name]))
          \<and> k < length D
          \<and> path_exists fsys (candidate (take k D) directory (Rel [name]))
          \<and> (\<forall>j. k < j \<and> j \<le> length D \<longrightarrow>
                \<not> path_exists fsys (candidate (take j D) directory (Rel [name])))
          \<longrightarrow> get_template_file fsys D (Rel [name]) directory
                = Inr (candidate (take k D) directory (Rel [name])))
    \<and> (\<forall>directory.
          \<not> path_exists fsys (candidate (cwd fsys) directory (Rel [name]))
          \<and> (\<forall>a\<in>set (D # parents D). \<not> path_exists fsys (candidate a directory (Rel [name])))
          \<longrightarrow> get_template_file fsys D (Rel [name]) directory
                = Inl (Exn FileNotFoundError name))"
proof (intro conjI allI impI)
  assume "D @ [name] \<in> entries fsys"
  with assms show "get_template_file fsys D (Rel [name]) None = Inr (Abs (D @ [name]))"
    by (simp add: get_template_file_def)
next
  fix directory k
  assume h: "\<not> path_exists fsys (candidate (cwd fsys) directory (Rel [name]))
          \<and> k < length D
          \<and> path_exists fsys (candidate (take k D) directory (Rel [name]))
          \<and> (\<forall>j. k < j \<and> j \<le> length D \<longrightarrow>
                \<not> path_exists fsys (candidate (take j D) directory (Rel [name])))"
  let ?P = "\<lambda>a. path_exists fsys (candidate a directory (Rel [name]))"
  from h have "\<not> ?P (take (length D) D)" by blast
  then have noD: "\<not> ?P D" by simp
  have "List.find ?P (map (\<lambda>n. take n D) (rev [0..<length D])) = Some (take k D)"
    using h by (intro find_rev_upt) auto
  with assms h noD
  show "get_template_file fsys D (Rel [name]) directory
                = Inr (candidate (take k D) directory (Rel [name]))"
    by (simp add: get_template_file_def parents_def)
next
  fix directory
  assume h: "\<not> path_exists fsys (candidate (cwd fsys) directory (Rel [name]))
          \<and> (\<forall>a\<in>set (D # parents D). \<not> path_exists fsys (candidate a directory (Rel [name])))"
  then have "List.find (\<lambda>a. path_exists fsys (candidate a directory (Rel [name]))) (parents D) = None"
    by (simp add: find_None_iff)
  with assms h
  show "get_template_file fsys D (Rel [name]) directory = Inl (Exn FileNotFoundError name)"
    by (simp add: get_template_file_def)
qed

theorem get_template_file_search_witness:
  "get_template_file search_fs [''pkg'', ''src''] (Rel [''local.jinja'']) None
     = Inr (Abs [''pkg'', ''src'', ''local.jinja''])
   \<and> get_template_file search_fs [''pkg'', ''src''] (Rel [''template.jinja''])
       (Some (Rel [''templates'']))
     = Inr (Abs [''pkg'', ''templates'', ''template.jinja''])
   \<and> get_template_file search_fs [''pkg'', ''src''] (Rel [''missing.jinja'']) None
     = Inl (Exn FileNotFoundError ''missing.jinja'')"
proof -
  have a1: "\<not> path_exists search_fs (Rel [''local.jinja''])"
    by (simp add: search_fs_def)
  have b1: "[''pkg'', ''src''] @ [''local.jinja''] \<in> entries search_fs"
    by (simp add: search_fs_def)
  from get_template_file_search [OF a1, of "[''pkg'', ''src'']"] b1
  have r1: "get_template_file search_fs [''pkg'', ''src''] (Rel [''local.jinja'']) None
     = Inr (Abs [''pkg'', ''src'', ''local.jinja''])"
    by simp
  have a2: "\<not> path_exists search_fs (Rel [''template.jinja''])"
    by (simp add: search_fs_def)
  let ?dir = "Some (Rel [''templates''])"
  have b2: "\<not> path_exists search_fs (candidate (cwd search_fs) ?dir (Rel [''template.jinja'']))
      \<and> 1 < length [''pkg'', ''src'']
      \<and> path_exists search_fs (candidate (take 1 [''pkg'', ''src'']) ?dir (Rel [''template.jinja'']))
      \<and> (\<forall>j. 1 < j \<and> j \<le> length [''pkg'', ''src''] \<longrightarrow>
            \<not> path_exists search_fs
                (candidate (take j [''pkg'', ''src'']) ?dir (Rel [''template.jinja''])))"
    by (simp add: search_fs_def)
  from get_template_file_search [OF a2, of "[''pkg'', ''src'']"] b2
  have "get_template_file search_fs [''pkg'', ''src''] (Rel [''template.jinja'']) ?dir
     = Inr (candidate (take 1 [''pkg'', ''src'']) ?dir (Rel [''template.jinja'']))"
    by blast
  then have r2: "get_template_file search_fs [''pkg'', ''src''] (Rel [''template.jinja'']) ?dir
     = Inr (Abs [''pkg'', ''templates'', ''template.jinja''])"
    by simp
  have a3: "\<not> path_exists search_fs (Rel [''missing.jinja''])"
    by (simp add: search_fs_def)
  have b3: "\<not> path_exists search_fs (candidate (cwd search_fs) None (Rel [''missing.jinja'']))
      \<and> (\<forall>a\<in>set ([''pkg'', ''src''] # parents [''pkg'', ''src'']).
            \<not> path_exists search_fs (candidate a None (Rel [''missing.jinja''])))"
    by (simp add: search_fs_def parents_def)
  from get_template_file_search [OF a3, of "[''pkg'', ''src'']"] b3
  have r3: "get_template_file search_fs [''pkg'', ''src''] (Rel [''missing.jinja'']) None
     = Inl (Exn FileNotFoundError ''missing.jinja'')"
    by blast
  from r1 r2 r3 show ?thesis by simp
qed

end
